theory Spec2Isabelle
  imports Complex_Main
begin

section \<open>Data model of \<^verbatim>\<open>src/app.py\<close>\<close>

text \<open>
  \<^verbatim>\<open>Medico\<close> objects are mutable and shared: \<^verbatim>\<open>Financeiro.medicos\<close> holds them and every
  \<^verbatim>\<open>Atendimento\<close> holds a reference to one of them. The model therefore keeps an explicit
  object store (\<open>heap\<close>, a list indexed by reference; a new object is appended and nothing
  is ever freed) and lets both collections hold references into it.

  Python's \<^verbatim>\<open>float\<close> values (\<^verbatim>\<open>valor\<close>, \<^verbatim>\<open>percentual_repasse\<close>) are read as real numbers:
  rounding, infinities and NaN are outside the model. Python's \<^verbatim>\<open>int\<close> is \<open>int\<close>.
\<close>

type_synonym ref = nat

record Medico =
  id_medico :: int
  nome :: string
  percentual_repasse :: real

record Atendimento =
  id_atendimento :: int
  medico :: ref
  valor :: real

text \<open>\<^verbatim>\<open>Atendimento.calcular_repasse\<close>: \<^verbatim>\<open>self.valor * (self.medico.percentual_repasse / 100)\<close>.\<close>

definition calcular_repasse :: "Medico list \<Rightarrow> Atendimento \<Rightarrow> real" where
  "calcular_repasse h a = valor a * (percentual_repasse (h ! medico a) / 100)"

section \<open>The database\<close>

text \<open>
  Both tables are declared with \<^verbatim>\<open>id INTEGER PRIMARY KEY\<close>: a table is a list of rows kept in
  ascending key order (the order in which a \<^verbatim>\<open>SELECT\<close> without \<^verbatim>\<open>ORDER BY\<close> scans such a
  table), and an \<^verbatim>\<open>INSERT\<close> of a key that is already there raises
  \<^verbatim>\<open>sqlite3.IntegrityError\<close>. The declared foreign key is not enforced: the program never
  switches \<^verbatim>\<open>PRAGMA foreign_keys\<close> on.
\<close>

datatype erro = IntegrityError

type_synonym linha_medico = "int \<times> string \<times> real"

type_synonym linha_atendimento = "int \<times> int \<times> real"

record Banco =
  tab_medicos :: "linha_medico list"
  tab_atendimentos :: "linha_atendimento list"

fun inserir :: "int \<times> 'a \<Rightarrow> (int \<times> 'a) list \<Rightarrow> (int \<times> 'a) list option" where
  "inserir r [] = Some [r]"
| "inserir r (x # xs) =
     (if fst r = fst x then None
      else if fst r < fst x then Some (r # x # xs)
      else map_option ((#) x) (inserir r xs))"

text \<open>The \<^verbatim>\<open>for\<close> loops of \<^verbatim>\<open>salvar_dados\<close>: one \<^verbatim>\<open>INSERT\<close> per element, in list order.\<close>

fun inserir_todos :: "(int \<times> 'a) list \<Rightarrow> (int \<times> 'a) list \<Rightarrow> (int \<times> 'a) list option" where
  "inserir_todos [] t = Some t"
| "inserir_todos (r # rs) t =
     (case inserir r t of None \<Rightarrow> None | Some t' \<Rightarrow> inserir_todos rs t')"

section \<open>The store \<^verbatim>\<open>Financeiro\<close>\<close>

record Financeiro =
  heap :: "Medico list"
  medicos :: "ref list"
  atendimentos :: "Atendimento list"
  banco :: Banco

definition para_linha_medico :: "Medico \<Rightarrow> linha_medico" where
  "para_linha_medico m = (id_medico m, nome m, percentual_repasse m)"

definition para_linha_atendimento :: "Medico list \<Rightarrow> Atendimento \<Rightarrow> linha_atendimento" where
  "para_linha_atendimento h a = (id_atendimento a, id_medico (h ! medico a), valor a)"

text \<open>
  \<^verbatim>\<open>salvar_dados\<close>: both tables are emptied and refilled from memory inside one
  transaction. When an \<^verbatim>\<open>INSERT\<close> raises, \<^verbatim>\<open>commit\<close> is never reached and the database
  keeps its former contents; the exception leaves the method. Memory is never touched.
\<close>

definition salvar_dados :: "Financeiro \<Rightarrow> Financeiro \<times> (erro + unit)" where
  "salvar_dados s =
     (case inserir_todos (map (\<lambda>r. para_linha_medico (heap s ! r)) (medicos s)) [] of
        None \<Rightarrow> (s, Inl IntegrityError)
      | Some tm \<Rightarrow>
          (case inserir_todos (map (para_linha_atendimento (heap s)) (atendimentos s)) [] of
             None \<Rightarrow> (s, Inl IntegrityError)
           | Some ta \<Rightarrow>
               (s\<lparr>banco := \<lparr>tab_medicos = tm, tab_atendimentos = ta\<rparr>\<rparr>, Inr ())))"

text \<open>\<^verbatim>\<open>obter_medico_por_id\<close>: the first doctor of the list with that id, or \<^verbatim>\<open>None\<close>.\<close>

definition procurar :: "Medico list \<Rightarrow> ref list \<Rightarrow> int \<Rightarrow> ref option" where
  "procurar h ms medico_id = find (\<lambda>r. id_medico (h ! r) = medico_id) ms"

definition obter_medico_por_id :: "Financeiro \<Rightarrow> int \<Rightarrow> ref option" where
  "obter_medico_por_id s medico_id = procurar (heap s) (medicos s) medico_id"

text \<open>\<^verbatim>\<open>carregar_dados\<close>: both collections are cleared and rebuilt from the tables.\<close>

definition Medico_de_linha :: "linha_medico \<Rightarrow> Medico" where
  "Medico_de_linha row =
     (case row of (i, n, p) \<Rightarrow> \<lparr>id_medico = i, nome = n, percentual_repasse = p\<rparr>)"

fun carregar_medicos :: "linha_medico list \<Rightarrow> Medico list \<times> ref list \<Rightarrow> Medico list \<times> ref list" where
  "carregar_medicos [] (h, ms) = (h, ms)"
| "carregar_medicos (row # rows) (h, ms) =
     carregar_medicos rows (h @ [Medico_de_linha row], ms @ [length h])"

fun carregar_atendimentos ::
  "Medico list \<Rightarrow> ref list \<Rightarrow> linha_atendimento list \<Rightarrow> Atendimento list \<Rightarrow> Atendimento list" where
  "carregar_atendimentos h ms [] ats = ats"
| "carregar_atendimentos h ms ((at_id, med_id, v) # rows) ats =
     (case procurar h ms med_id of
        None \<Rightarrow> carregar_atendimentos h ms rows ats
      | Some r \<Rightarrow>
          carregar_atendimentos h ms rows
            (ats @ [\<lparr>id_atendimento = at_id, medico = r, valor = v\<rparr>]))"

definition carregar_dados :: "Financeiro \<Rightarrow> Financeiro" where
  "carregar_dados s =
     (case carregar_medicos (tab_medicos (banco s)) (heap s, []) of
        (h, ms) \<Rightarrow>
          s\<lparr>heap := h, medicos := ms,
            atendimentos := carregar_atendimentos h ms (tab_atendimentos (banco s)) []\<rparr>)"

text \<open>\<^verbatim>\<open>Financeiro.__init__\<close> on a database (empty tables when the file is new).\<close>

definition banco_vazio :: Banco where
  "banco_vazio = \<lparr>tab_medicos = [], tab_atendimentos = []\<rparr>"

definition novo_Financeiro :: "Banco \<Rightarrow> Financeiro" where
  "novo_Financeiro b = carregar_dados \<lparr>heap = [], medicos = [], atendimentos = [], banco = b\<rparr>"

text \<open>
  The mutating methods change memory first and call \<^verbatim>\<open>salvar_dados\<close> last, so an
  \<^verbatim>\<open>IntegrityError\<close> leaves the method with the memory already changed: every method
  returns the state together with its result or the exception.
\<close>

definition cadastrar_medico :: "string \<Rightarrow> real \<Rightarrow> Financeiro \<Rightarrow> Financeiro \<times> (erro + ref)" where
  "cadastrar_medico n p s =
     (let medico_id = int (length (medicos s)) + 1;
          r = length (heap s);
          s1 = s\<lparr>heap := heap s @ [\<lparr>id_medico = medico_id, nome = n, percentual_repasse = p\<rparr>],
                 medicos := medicos s @ [r]\<rparr>
      in case salvar_dados s1 of
           (s2, Inl e) \<Rightarrow> (s2, Inl e)
         | (s2, Inr u) \<Rightarrow> (s2, Inr r))"

text \<open>
  The two conditional assignments of \<^verbatim>\<open>atualizar_medico\<close> on the object \<open>r\<close>:
  \<^verbatim>\<open>if nome is not None: medico.nome = nome\<close> and the same for the percentage.
\<close>

definition atribuir_campos :: "ref \<Rightarrow> string option \<Rightarrow> real option \<Rightarrow> Medico list \<Rightarrow> Medico list" where
  "atribuir_campos r n p h =
     (let h1 = (case n of None \<Rightarrow> h | Some n' \<Rightarrow> h[r := (h ! r)\<lparr>nome := n'\<rparr>])
      in case p of None \<Rightarrow> h1 | Some p' \<Rightarrow> h1[r := (h1 ! r)\<lparr>percentual_repasse := p'\<rparr>])"

definition atualizar_medico ::
  "int \<Rightarrow> string option \<Rightarrow> real option \<Rightarrow> Financeiro \<Rightarrow> Financeiro \<times> (erro + bool)" where
  "atualizar_medico medico_id n p s =
     (case obter_medico_por_id s medico_id of
        None \<Rightarrow> (s, Inr False)
      | Some r \<Rightarrow>
          (case salvar_dados (s\<lparr>heap := atribuir_campos r n p (heap s)\<rparr>) of
             (s2, Inl e) \<Rightarrow> (s2, Inl e)
           | (s2, Inr u) \<Rightarrow> (s2, Inr True)))"

definition remover_medico :: "int \<Rightarrow> Financeiro \<Rightarrow> Financeiro \<times> (erro + bool)" where
  "remover_medico medico_id s =
     (case obter_medico_por_id s medico_id of
        Some r \<Rightarrow>
          (case salvar_dados (s\<lparr>medicos := remove1 r (medicos s)\<rparr>) of
             (s2, Inl e) \<Rightarrow> (s2, Inl e)
           | (s2, Inr u) \<Rightarrow> (s2, Inr True))
      | None \<Rightarrow> (s, Inr False))"

definition registrar_atendimento ::
  "int \<Rightarrow> real \<Rightarrow> Financeiro \<Rightarrow> Financeiro \<times> (erro + Atendimento option)" where
  "registrar_atendimento medico_id v s =
     (case obter_medico_por_id s medico_id of
        None \<Rightarrow> (s, Inr None)
      | Some r \<Rightarrow>
          (let atendimento_id = int (length (atendimentos s)) + 1;
               atendimento = \<lparr>id_atendimento = atendimento_id, medico = r, valor = v\<rparr>;
               s1 = s\<lparr>atendimentos := atendimentos s @ [atendimento]\<rparr>
           in case salvar_dados s1 of
                (s2, Inl e) \<Rightarrow> (s2, Inl e)
              | (s2, Inr u) \<Rightarrow> (s2, Inr (Some atendimento))))"

definition listar_medicos :: "Financeiro \<Rightarrow> ref list" where
  "listar_medicos s = medicos s"

definition listar_atendimentos :: "Financeiro \<Rightarrow> Atendimento list" where
  "listar_atendimentos s = atendimentos s"

text \<open>\<^verbatim>\<open>relatorio_financeiro\<close>; Python's \<^verbatim>\<open>sum\<close> adds from 0, left to right.\<close>

record Relatorio =
  faturamento_total :: real
  total_repasse :: real
  lucro_liquido :: real
  qtd_atendimentos :: nat
  qtd_medicos :: nat

definition soma :: "real list \<Rightarrow> real" where
  "soma xs = foldl (+) 0 xs"

definition relatorio_financeiro :: "Financeiro \<Rightarrow> Financeiro \<times> Relatorio" where
  "relatorio_financeiro s =
     (let total = soma (map valor (atendimentos s));
          total_rep = soma (map (calcular_repasse (heap s)) (atendimentos s))
      in (s, \<lparr>faturamento_total = total,
              total_repasse = total_rep,
              lucro_liquido = total - total_rep,
              qtd_atendimentos = length (atendimentos s),
              qtd_medicos = length (medicos s)\<rparr>))"

section \<open>The route \<^verbatim>\<open>novo_atendimento\<close> (POST)\<close>

text \<open>
  The form fields arrive already converted: \<open>None\<close> stands for the \<^verbatim>\<open>ValueError\<close> or
  \<^verbatim>\<open>KeyError\<close> of \<^verbatim>\<open>int(request.form['medico_id'])\<close> and \<^verbatim>\<open>float(request.form['valor'])\<close>.
  The route answers with the message it flashes; an \<^verbatim>\<open>IntegrityError\<close> is not caught.
\<close>

datatype aviso = Registrado real | MedicoInvalido | ValorNaoPositivo | DadosInvalidos

definition novo_atendimento :: "int option \<Rightarrow> real option \<Rightarrow> Financeiro \<Rightarrow> Financeiro \<times> (erro + aviso)" where
  "novo_atendimento campo_medico campo_valor s =
     (case campo_medico of
        None \<Rightarrow> (s, Inr DadosInvalidos)
      | Some medico_id \<Rightarrow>
          (case campo_valor of
             None \<Rightarrow> (s, Inr DadosInvalidos)
           | Some v \<Rightarrow>
               if v > 0 then
                 (case registrar_atendimento medico_id v s of
                    (s', Inl e) \<Rightarrow> (s', Inl e)
                  | (s', Inr None) \<Rightarrow> (s', Inr MedicoInvalido)
                  | (s', Inr (Some a)) \<Rightarrow> (s', Inr (Registrado (calcular_repasse (heap s') a))))
               else (s, Inr ValorNaoPositivo)))"

section \<open>Sequences of calls\<close>

text \<open>
  The store is one process-wide object; a request that ends in an exception leaves it as
  the method left it, and the next request goes on from there.
\<close>

datatype chamada =
    Cadastrar string real
  | Atualizar int "string option" "real option"
  | Remover int
  | Registrar int real

fun executar :: "chamada \<Rightarrow> Financeiro \<Rightarrow> Financeiro" where
  "executar (Cadastrar n p) s = fst (cadastrar_medico n p s)"
| "executar (Atualizar i n p) s = fst (atualizar_medico i n p s)"
| "executar (Remover i) s = fst (remover_medico i s)"
| "executar (Registrar i v) s = fst (registrar_atendimento i v s)"

definition executar_todas :: "chamada list \<Rightarrow> Financeiro \<Rightarrow> Financeiro" where
  "executar_todas cs s = fold executar cs s"

definition ids_medicos :: "Financeiro \<Rightarrow> int list" where
  "ids_medicos s = map (\<lambda>r. id_medico (heap s ! r)) (medicos s)"

definition ids_atendimentos :: "Financeiro \<Rightarrow> int list" where
  "ids_atendimentos s = map id_atendimento (atendimentos s)"

text \<open>The doctors of the list as values, in list order.\<close>

definition objetos_medicos :: "Financeiro \<Rightarrow> Medico list" where
  "objetos_medicos s = map ((!) (heap s)) (medicos s)"

section \<open>Well-formed stores and the states of the examples\<close>

text \<open>
  Every reference held by a collection points into the object store, and the doctor list
  holds no object twice. Python guarantees the first; the second holds because every
  element of the list is an object created for it.
\<close>

definition bem_formado :: "Financeiro \<Rightarrow> bool" where
  "bem_formado s \<longleftrightarrow>
     list_all (\<lambda>r. r < length (heap s)) (medicos s) \<and>
     list_all (\<lambda>a. medico a < length (heap s)) (atendimentos s) \<and>
     distinct (medicos s)"

text \<open>The doctor \<open>r\<close> is the one that \<^verbatim>\<open>obter_medico_por_id\<close> returns for the id of \<open>r\<close>.\<close>

definition encontrado :: "Financeiro \<Rightarrow> ref \<Rightarrow> bool" where
  "encontrado s r \<longleftrightarrow> obter_medico_por_id s (id_medico (heap s ! r)) = Some r"

definition estado_inicial :: Financeiro where
  "estado_inicial = novo_Financeiro banco_vazio"

text \<open>The scenario of the specification: one doctor at 20 per cent, one appointment of 100.\<close>

definition estado_cenario :: Financeiro where
  "estado_cenario = executar_todas [Cadastrar ''Dr. A'' 20, Registrar 1 100] estado_inicial"

text \<open>Two registrations, the removal of the first doctor, one more registration.\<close>

definition chamadas_colisao :: "chamada list" where
  "chamadas_colisao = [Cadastrar ''A'' 20, Cadastrar ''B'' 30, Remover 1, Cadastrar ''C'' 40]"

definition estado_colisao :: Financeiro where
  "estado_colisao = executar_todas chamadas_colisao estado_inicial"

text \<open>Three registrations, the removal of doctors 1 and 2, one more registration.\<close>

definition estado_fora_de_ordem :: Financeiro where
  "estado_fora_de_ordem =
     executar_todas
       [Cadastrar ''A'' 20, Cadastrar ''B'' 30, Cadastrar ''C'' 40, Remover 1, Remover 2,
        Cadastrar ''D'' 50]
       estado_inicial"

text \<open>Two doctors with one appointment each, then the removal of doctor 1.\<close>

definition estado_orfao :: Financeiro where
  "estado_orfao =
     executar_todas
       [Cadastrar ''Dr. A'' 20, Registrar 1 100, Cadastrar ''Dr. B'' 30, Registrar 2 200,
        Remover 1]
       estado_inicial"

lemmas avaliar =
  estado_inicial_def estado_cenario_def chamadas_colisao_def estado_colisao_def
  estado_fora_de_ordem_def estado_orfao_def Medico_de_linha_def objetos_medicos_def
  executar_todas_def novo_Financeiro_def banco_vazio_def carregar_dados_def
  cadastrar_medico_def remover_medico_def registrar_atendimento_def atualizar_medico_def
  atribuir_campos_def salvar_dados_def obter_medico_por_id_def procurar_def
  para_linha_medico_def para_linha_atendimento_def ids_medicos_def ids_atendimentos_def
  relatorio_financeiro_def soma_def calcular_repasse_def novo_atendimento_def
  listar_medicos_def listar_atendimentos_def bem_formado_def Let_def


section \<open>Basic facts\<close>


subsection \<open>\<^verbatim>\<open>salvar_dados\<close> and the lookup\<close>

lemma salvar_dados_disj:
  "salvar_dados s = (s, Inl IntegrityError) \<or> (\<exists>b. salvar_dados s = (s\<lparr>banco := b\<rparr>, Inr ()))"
  by (auto simp: salvar_dados_def split: option.splits)

lemma salvar_dados_cases:
  obtains (falha) "salvar_dados s = (s, Inl IntegrityError)"
        | (sucesso) b where "salvar_dados s = (s\<lparr>banco := b\<rparr>, Inr ())"
  using salvar_dados_disj [of s] by blast

lemma salvar_dados_heap [simp]: "heap (fst (salvar_dados s)) = heap s"
  by (cases s rule: salvar_dados_cases) auto

lemma salvar_dados_medicos [simp]: "medicos (fst (salvar_dados s)) = medicos s"
  by (cases s rule: salvar_dados_cases) auto

lemma salvar_dados_atendimentos [simp]: "atendimentos (fst (salvar_dados s)) = atendimentos s"
  by (cases s rule: salvar_dados_cases) auto

lemma salvar_snd: "snd (salvar_dados s) = Inl IntegrityError \<or> snd (salvar_dados s) = Inr ()"
  by (cases s rule: salvar_dados_cases) auto

lemma obter_None_iff: "obter_medico_por_id s i = None \<longleftrightarrow> i \<notin> set (ids_medicos s)"
  by (auto simp: obter_medico_por_id_def procurar_def ids_medicos_def find_None_iff)

lemma obter_Some_iff: "(\<exists>r. obter_medico_por_id s i = Some r) \<longleftrightarrow> i \<in> set (ids_medicos s)"
  using obter_None_iff [of s i] by auto

lemma obter_SomeD:
  "obter_medico_por_id s i = Some r \<Longrightarrow> r \<in> set (medicos s) \<and> id_medico (heap s ! r) = i"
  by (auto simp: obter_medico_por_id_def procurar_def find_Some_iff)

lemma procurar_SomeD: "procurar h ms i = Some r \<Longrightarrow> r \<in> set ms \<and> id_medico (h ! r) = i"
  unfolding procurar_def by (auto simp: find_Some_iff)


lemma procurar_objetos:
  "map_option ((!) h) (procurar h ms i) = find (\<lambda>m. id_medico m = i) (map ((!) h) ms)"
  unfolding procurar_def by (induction ms) simp_all

lemma soma_acc: "foldl (+) (acc::real) xs = acc + sum_list xs"
  by (induction xs arbitrary: acc) simp_all

lemma soma_sum_list: "soma xs = sum_list xs"
  by (simp add: soma_def soma_acc)

lemma relatorio_snd:
  "snd (relatorio_financeiro s) =
     \<lparr>faturamento_total = sum_list (map valor (atendimentos s)),
      total_repasse = sum_list (map (calcular_repasse (heap s)) (atendimentos s)),
      lucro_liquido = sum_list (map valor (atendimentos s)) -
                      sum_list (map (calcular_repasse (heap s)) (atendimentos s)),
      qtd_atendimentos = length (atendimentos s),
      qtd_medicos = length (medicos s)\<rparr>"
  by (simp add: relatorio_financeiro_def Let_def soma_sum_list)


subsection \<open>The tables\<close>

lemma inserir_novo: "fst r \<notin> fst ` set t \<Longrightarrow> inserir r t = Some (insort_key fst r t)"
  by (induction t) auto

lemma inserir_repetido:
  "sorted (map fst t) \<Longrightarrow> fst r \<in> fst ` set t \<Longrightarrow> inserir r t = None"
proof (induction t)
  case Nil
  then show ?case by simp
next
  case (Cons x xs)
  show ?case
  proof (cases "fst r = fst x")
    case True
    then show ?thesis by simp
  next
    case False
    with Cons.prems have in_xs: "fst r \<in> fst ` set xs" by auto
    with Cons.prems have "fst x \<le> fst r" by auto
    with False have "\<not> fst r < fst x" by simp
    moreover from Cons.prems have "sorted (map fst xs)" by simp
    ultimately show ?thesis using False Cons.IH in_xs by simp
  qed
qed

lemma inserir_todos_distintos:
  "distinct (map fst rows) \<Longrightarrow> fst ` set rows \<inter> fst ` set t = {} \<Longrightarrow>
   inserir_todos rows t = Some (fold (insort_key fst) rows t)"
proof (induction rows arbitrary: t)
  case Nil
  then show ?case by simp
next
  case (Cons r rows)
  from Cons.prems have novo: "fst r \<notin> fst ` set t" by auto
  from Cons.prems have "distinct (map fst rows)" by simp
  moreover from Cons.prems have "fst ` set rows \<inter> fst ` set (insort_key fst r t) = {}"
    by (auto simp: set_insort_key)
  ultimately have "inserir_todos rows (insort_key fst r t) =
      Some (fold (insort_key fst) rows (insort_key fst r t))"
    by (rule Cons.IH)
  then show ?case by (simp add: inserir_novo [OF novo])
qed

lemma inserir_todos_repetidos:
  "sorted (map fst t) \<Longrightarrow> \<not> (distinct (map fst rows) \<and> fst ` set rows \<inter> fst ` set t = {}) \<Longrightarrow>
   inserir_todos rows t = None"
proof (induction rows arbitrary: t)
  case Nil
  then show ?case by simp
next
  case (Cons r rows)
  show ?case
  proof (cases "fst r \<in> fst ` set t")
    case True
    then show ?thesis using Cons.prems(1) by (simp add: inserir_repetido)
  next
    case False
    have s: "sorted (map fst (insort_key fst r t))"
      using Cons.prems(1) by (simp add: sorted_insort_key)
    have "\<not> (distinct (map fst rows) \<and> fst ` set rows \<inter> fst ` set (insort_key fst r t) = {})"
      using Cons.prems(2) False by (auto simp: set_insort_key)
    with s have "inserir_todos rows (insort_key fst r t) = None" by (rule Cons.IH)
    then show ?thesis by (simp add: inserir_novo [OF False])
  qed
qed

lemma inserir_todos_vazio:
  "inserir_todos rows [] = (if distinct (map fst rows) then Some (sort_key fst rows) else None)"
proof (cases "distinct (map fst rows)")
  case True
  then have "inj_on fst (set rows)" by (simp add: distinct_map)
  then have "sort_key fst rows = fold (insort_key fst) rows []" by (rule sort_key_conv_fold)
  with True show ?thesis by (simp add: inserir_todos_distintos)
next
  case False
  then show ?thesis by (simp add: inserir_todos_repetidos)
qed

lemma salvar_dados_eq:
  "salvar_dados s =
     (if distinct (ids_medicos s) \<and> distinct (ids_atendimentos s)
      then (s\<lparr>banco := \<lparr>tab_medicos = sort_key fst (map (\<lambda>r. para_linha_medico (heap s ! r)) (medicos s)),
                         tab_atendimentos = sort_key fst (map (para_linha_atendimento (heap s)) (atendimentos s))\<rparr>\<rparr>,
            Inr ())
      else (s, Inl IntegrityError))"
proof -
  have a: "map fst (map (\<lambda>r. para_linha_medico (heap s ! r)) (medicos s)) = ids_medicos s"
    by (simp add: ids_medicos_def para_linha_medico_def comp_def)
  have b: "map fst (map (para_linha_atendimento (heap s)) (atendimentos s)) = ids_atendimentos s"
    by (simp add: ids_atendimentos_def para_linha_atendimento_def comp_def)
  show ?thesis
    unfolding salvar_dados_def inserir_todos_vazio a b by simp
qed





subsection \<open>The mutating methods\<close>

lemma cadastrar_fst:
  "fst (cadastrar_medico n p s) =
     fst (salvar_dados
       (s\<lparr>heap := heap s @ [\<lparr>id_medico = int (length (medicos s)) + 1, nome = n,
                               percentual_repasse = p\<rparr>],
          medicos := medicos s @ [length (heap s)]\<rparr>))"
  by (simp add: cadastrar_medico_def Let_def split: prod.splits sum.splits)

lemma registrar_None:
  "obter_medico_por_id s i = None \<Longrightarrow> registrar_atendimento i v s = (s, Inr None)"
  by (simp add: registrar_atendimento_def)

lemma registrar_fst:
  "obter_medico_por_id s i = Some r \<Longrightarrow>
   fst (registrar_atendimento i v s) =
     fst (salvar_dados (s\<lparr>atendimentos := atendimentos s @
        [\<lparr>id_atendimento = int (length (atendimentos s)) + 1, medico = r, valor = v\<rparr>]\<rparr>))"
  by (simp add: registrar_atendimento_def Let_def split: prod.splits sum.splits)

lemma registrar_snd:
  "obter_medico_por_id s i = Some r \<Longrightarrow>
   snd (registrar_atendimento i v s) =
     Inr (Some \<lparr>id_atendimento = int (length (atendimentos s)) + 1, medico = r, valor = v\<rparr>) \<or>
   snd (registrar_atendimento i v s) = Inl IntegrityError"
  by (cases "s\<lparr>atendimentos := atendimentos s @
        [\<lparr>id_atendimento = int (length (atendimentos s)) + 1, medico = r, valor = v\<rparr>]\<rparr>"
        rule: salvar_dados_cases)
     (simp_all add: registrar_atendimento_def Let_def)

lemma atualizar_None:
  "obter_medico_por_id s i = None \<Longrightarrow> atualizar_medico i n p s = (s, Inr False)"
  by (simp add: atualizar_medico_def)

lemma atualizar_fst:
  "obter_medico_por_id s i = Some r \<Longrightarrow>
   fst (atualizar_medico i n p s) = fst (salvar_dados (s\<lparr>heap := atribuir_campos r n p (heap s)\<rparr>))"
  by (simp add: atualizar_medico_def split: prod.splits sum.splits)

lemma atualizar_snd:
  "obter_medico_por_id s i = Some r \<Longrightarrow>
   snd (atualizar_medico i n p s) =
     (case snd (salvar_dados (s\<lparr>heap := atribuir_campos r n p (heap s)\<rparr>)) of
        Inl e \<Rightarrow> Inl e | Inr u \<Rightarrow> Inr True)"
  by (cases "s\<lparr>heap := atribuir_campos r n p (heap s)\<rparr>" rule: salvar_dados_cases)
     (simp_all add: atualizar_medico_def)

lemma length_atribuir [simp]: "length (atribuir_campos r n p h) = length h"
  by (simp add: atribuir_campos_def Let_def split: option.splits)

lemma atribuir_outro: "r' \<noteq> r \<Longrightarrow> atribuir_campos r n p h ! r' = h ! r'"
  by (simp add: atribuir_campos_def Let_def split: option.splits)

lemma atribuir_id: "id_medico (atribuir_campos r n p h ! r) = id_medico (h ! r)"
  by (cases "r < length h")
     (simp_all add: atribuir_campos_def Let_def list_update_beyond split: option.splits)

lemma atribuir_nome_None: "nome (atribuir_campos r None p h ! r) = nome (h ! r)"
  by (cases "r < length h")
     (simp_all add: atribuir_campos_def Let_def list_update_beyond split: option.splits)

lemma atribuir_perc_None:
  "percentual_repasse (atribuir_campos r n None h ! r) = percentual_repasse (h ! r)"
  by (cases "r < length h")
     (simp_all add: atribuir_campos_def Let_def list_update_beyond split: option.splits)

lemma atribuir_nome_Some: "r < length h \<Longrightarrow> nome (atribuir_campos r (Some n) p h ! r) = n"
  by (simp add: atribuir_campos_def Let_def split: option.splits)

lemma atribuir_perc_Some:
  "r < length h \<Longrightarrow> percentual_repasse (atribuir_campos r n (Some p) h ! r) = p"
  by (simp add: atribuir_campos_def Let_def split: option.splits)

lemma atribuir_None_None [simp]: "atribuir_campos r None None h = h"
  by (simp add: atribuir_campos_def)

lemma ids_atribuir:
  "map (\<lambda>r'. id_medico (atribuir_campos r n p h ! r')) ms = map (\<lambda>r'. id_medico (h ! r')) ms"
proof -
  have "id_medico (atribuir_campos r n p h ! r') = id_medico (h ! r')" for r'
    by (cases "r' = r") (simp_all add: atribuir_id atribuir_outro)
  then show ?thesis by simp
qed

lemma remover_None:
  "obter_medico_por_id s i = None \<Longrightarrow> remover_medico i s = (s, Inr False)"
  by (simp add: remover_medico_def)

lemma remover_fst:
  "obter_medico_por_id s i = Some r \<Longrightarrow>
   fst (remover_medico i s) = fst (salvar_dados (s\<lparr>medicos := remove1 r (medicos s)\<rparr>))"
  by (simp add: remover_medico_def split: prod.splits sum.splits)

lemma remover_snd:
  "obter_medico_por_id s i = Some r \<Longrightarrow>
   snd (remover_medico i s) = Inr True \<or> snd (remover_medico i s) = Inl IntegrityError"
  by (cases "s\<lparr>medicos := remove1 r (medicos s)\<rparr>" rule: salvar_dados_cases)
     (simp_all add: remover_medico_def)


subsection \<open>\<^verbatim>\<open>carregar_dados\<close>\<close>

lemma Medico_de_linha_inv [simp]: "Medico_de_linha (para_linha_medico m) = m"
  by (simp add: Medico_de_linha_def para_linha_medico_def)

lemma id_Medico_de_linha [simp]: "id_medico (Medico_de_linha row) = fst row"
  by (simp add: Medico_de_linha_def split: prod.splits)

lemma carregar_medicos_eq:
  "carregar_medicos rows (h, ms) =
     (h @ map Medico_de_linha rows, ms @ [length h..<length h + length rows])"
proof (induction rows arbitrary: h ms)
  case Nil
  then show ?case by simp
next
  case (Cons row rows)
  have "[length h..<length h + length (row # rows)] =
        length h # [Suc (length h)..<Suc (length h) + length rows]"
    by (simp add: upt_rec)
  then show ?case by (simp add: Cons.IH)
qed

lemma objetos_carregados: "map ((!) (h @ d)) [length h..<length h + length d] = d"
  by (rule nth_equalityI) (simp_all add: nth_append)


lemma medicos_carregar_atendimentos:
  "list_all (\<lambda>a. medico a \<in> set ms) ats \<Longrightarrow>
   list_all (\<lambda>a. medico a \<in> set ms) (carregar_atendimentos h ms rows ats)"
proof (induction rows arbitrary: ats)
  case Nil
  then show ?case by simp
next
  case (Cons row rows)
  obtain at_id med_id v where row: "row = (at_id, med_id, v)" by (cases row) auto
  show ?case
  proof (cases "procurar h ms med_id")
    case None
    with Cons show ?thesis by (simp add: row)
  next
    case (Some r)
    from procurar_SomeD [OF Some] have "r \<in> set ms" by simp
    with Some Cons.prems show ?thesis by (simp add: row Cons.IH)
  qed
qed

lemma carregar_dados_eq:
  "carregar_dados s =
     s\<lparr>heap := heap s @ map Medico_de_linha (tab_medicos (banco s)),
       medicos := [length (heap s)..<length (heap s) + length (tab_medicos (banco s))],
       atendimentos :=
         carregar_atendimentos (heap s @ map Medico_de_linha (tab_medicos (banco s)))
           [length (heap s)..<length (heap s) + length (tab_medicos (banco s))]
           (tab_atendimentos (banco s)) []\<rparr>"
  by (simp add: carregar_dados_def carregar_medicos_eq)

lemma objetos_carregar_dados:
  "objetos_medicos (carregar_dados s) = map Medico_de_linha (tab_medicos (banco s))"
  using objetos_carregados [of "heap s" "map Medico_de_linha (tab_medicos (banco s))"]
  by (simp add: carregar_dados_eq objetos_medicos_def)

lemma ids_carregar_dados:
  "ids_medicos (carregar_dados s) = map fst (tab_medicos (banco s))"
proof -
  have "ids_medicos (carregar_dados s) = map id_medico (objetos_medicos (carregar_dados s))"
    by (simp add: ids_medicos_def objetos_medicos_def)
  then show ?thesis by (simp add: objetos_carregar_dados)
qed

lemma bem_formado_carregar_dados: "bem_formado (carregar_dados s)"
proof -
  let ?h = "heap s @ map Medico_de_linha (tab_medicos (banco s))"
  let ?ms = "[length (heap s)..<length (heap s) + length (tab_medicos (banco s))]"
  have "list_all (\<lambda>a. medico a \<in> set ?ms)
          (carregar_atendimentos ?h ?ms (tab_atendimentos (banco s)) [])"
    by (rule medicos_carregar_atendimentos) simp
  then have "list_all (\<lambda>a. medico a < length ?h)
          (carregar_atendimentos ?h ?ms (tab_atendimentos (banco s)) [])"
    by (rule list.pred_mono_strong) simp
  then show ?thesis
    by (simp add: bem_formado_def carregar_dados_eq list_all_iff)
qed


subsection \<open>The states of the examples\<close>

lemma estado_inicial_eq:
  "estado_inicial = \<lparr>heap = [], medicos = [], atendimentos = [], banco = banco_vazio\<rparr>"
  by (simp add: avaliar)

lemma estado_cenario_eq:
  "estado_cenario =
     \<lparr>heap = [\<lparr>id_medico = 1, nome = ''Dr. A'', percentual_repasse = 20\<rparr>],
      medicos = [0],
      atendimentos = [\<lparr>id_atendimento = 1, medico = 0, valor = 100\<rparr>],
      banco = \<lparr>tab_medicos = [(1, ''Dr. A'', 20)], tab_atendimentos = [(1, 1, 100)]\<rparr>\<rparr>"
  by (simp add: avaliar)

lemma estado_colisao_eq:
  "estado_colisao =
     \<lparr>heap = [\<lparr>id_medico = 1, nome = ''A'', percentual_repasse = 20\<rparr>,
              \<lparr>id_medico = 2, nome = ''B'', percentual_repasse = 30\<rparr>,
              \<lparr>id_medico = 2, nome = ''C'', percentual_repasse = 40\<rparr>],
      medicos = [1, 2],
      atendimentos = [],
      banco = \<lparr>tab_medicos = [(2, ''B'', 30)], tab_atendimentos = []\<rparr>\<rparr>"
  by (simp add: avaliar)




section \<open>What holds in every reachable store\<close>

lemma bem_formado_salvar [simp]: "bem_formado (fst (salvar_dados s)) = bem_formado s"
  by (simp add: bem_formado_def)

lemma bem_formado_cadastrar: "bem_formado s \<Longrightarrow> bem_formado (fst (cadastrar_medico n p s))"
  unfolding cadastrar_fst bem_formado_salvar
  by (auto simp: bem_formado_def list_all_iff less_Suc_eq)

lemma bem_formado_atualizar: "bem_formado s \<Longrightarrow> bem_formado (fst (atualizar_medico i n p s))"
proof (cases "obter_medico_por_id s i")
  case None
  then show "bem_formado s \<Longrightarrow> ?thesis" by (simp add: atualizar_None)
next
  case (Some r)
  show "bem_formado s \<Longrightarrow> ?thesis"
    unfolding atualizar_fst [OF Some] bem_formado_salvar by (simp add: bem_formado_def)
qed

lemma bem_formado_remover: "bem_formado s \<Longrightarrow> bem_formado (fst (remover_medico i s))"
proof (cases "obter_medico_por_id s i")
  case None
  then show "bem_formado s \<Longrightarrow> ?thesis" by (simp add: remover_None)
next
  case (Some r)
  show "bem_formado s \<Longrightarrow> ?thesis"
    unfolding remover_fst [OF Some] bem_formado_salvar
    by (auto simp: bem_formado_def list_all_iff dest: notin_set_remove1)
qed

lemma bem_formado_registrar:
  "bem_formado s \<Longrightarrow> bem_formado (fst (registrar_atendimento i v s))"
proof (cases "obter_medico_por_id s i")
  case None
  then show "bem_formado s \<Longrightarrow> ?thesis" by (simp add: registrar_None)
next
  case (Some r)
  from obter_SomeD [OF Some] have "r \<in> set (medicos s)" by simp
  then show "bem_formado s \<Longrightarrow> ?thesis"
    unfolding registrar_fst [OF Some] bem_formado_salvar
    by (auto simp: bem_formado_def list_all_iff)
qed

lemma bem_formado_executar: "bem_formado s \<Longrightarrow> bem_formado (executar c s)"
  by (cases c)
     (simp_all add: bem_formado_cadastrar bem_formado_atualizar bem_formado_remover
        bem_formado_registrar)

lemma bem_formado_executar_todas: "bem_formado s \<Longrightarrow> bem_formado (executar_todas cs s)"
  unfolding executar_todas_def
  by (induction cs arbitrary: s) (simp_all add: bem_formado_executar)

lemma bem_formado_novo: "bem_formado (novo_Financeiro b)"
  unfolding novo_Financeiro_def by (rule bem_formado_carregar_dados)

lemma bem_formado_alcancavel: "bem_formado (executar_todas cs (novo_Financeiro b))"
  by (rule bem_formado_executar_todas) (rule bem_formado_novo)

text \<open>
  With pairwise distinct ids \<^verbatim>\<open>salvar_dados\<close> succeeds, and then the update with both fields
  unspecified returns \<^verbatim>\<open>True\<close> and changes nothing in memory.
\<close>

lemma atualizar_medico_sem_campos_ids_distintos:
  assumes "i \<in> set (ids_medicos s)" "distinct (ids_medicos s)" "distinct (ids_atendimentos s)"
  shows "snd (atualizar_medico i None None s) = Inr True"
    and "heap (fst (atualizar_medico i None None s)) = heap s"
    and "medicos (fst (atualizar_medico i None None s)) = medicos s"
    and "atendimentos (fst (atualizar_medico i None None s)) = atendimentos s"
proof -
  from assms(1) obtain r where r: "obter_medico_por_id s i = Some r"
    using obter_Some_iff by blast
  have "s\<lparr>heap := heap s\<rparr> = s" by simp
  with assms(2,3) show "snd (atualizar_medico i None None s) = Inr True"
    by (simp add: atualizar_snd [OF r] salvar_dados_eq)
  show "heap (fst (atualizar_medico i None None s)) = heap s"
    "medicos (fst (atualizar_medico i None None s)) = medicos s"
    "atendimentos (fst (atualizar_medico i None None s)) = atendimentos s"
    by (simp_all add: atualizar_fst [OF r])
qed

text \<open>
  A doctor that \<^verbatim>\<open>obter_medico_por_id\<close> finds under its own id is found under it after every
  further call, for as long as it is in the list: the calls never change an id, and new
  doctors are appended behind it.
\<close>

lemma find_append_Some: "find P xs = Some x \<Longrightarrow> find P (xs @ ys) = Some x"
  by (induction xs) (auto split: if_splits)

lemma find_append_None: "find P xs = None \<Longrightarrow> find P (xs @ ys) = find P ys"
  by (induction xs) (auto split: if_splits)

lemma find_remove1_Some: "find P xs = Some x \<Longrightarrow> y \<noteq> x \<Longrightarrow> find P (remove1 y xs) = Some x"
  by (induction xs) (auto split: if_splits)

lemma encontrado_salvar [simp]: "encontrado (fst (salvar_dados s)) r = encontrado s r"
  by (simp add: encontrado_def obter_medico_por_id_def)

lemma encontrado_cadastrar:
  assumes "bem_formado s" "r \<in> set (medicos s)" "encontrado s r"
  shows "encontrado (fst (cadastrar_medico n p s)) r"
proof -
  let ?m = "\<lparr>id_medico = int (length (medicos s)) + 1, nome = n, percentual_repasse = p\<rparr>"
  from assms(1) have lt: "\<And>x. x \<in> set (medicos s) \<Longrightarrow> x < length (heap s)"
    by (auto simp: bem_formado_def list_all_iff)
  then have "find (\<lambda>x. id_medico ((heap s @ [?m]) ! x) = i) (medicos s) =
             find (\<lambda>x. id_medico (heap s ! x) = i) (medicos s)" for i
    by (intro find_cong) (simp_all add: nth_append)
  moreover from lt assms(2) have "(heap s @ [?m]) ! r = heap s ! r" by (simp add: nth_append)
  ultimately show ?thesis
    using assms(3) unfolding cadastrar_fst encontrado_salvar
    by (simp add: encontrado_def obter_medico_por_id_def procurar_def find_append_Some)
qed

lemma encontrado_atualizar:
  assumes "encontrado s r"
  shows "encontrado (fst (atualizar_medico i n p s)) r"
proof (cases "obter_medico_por_id s i")
  case None
  with assms show ?thesis by (simp add: atualizar_None)
next
  case (Some r')
  have "id_medico (atribuir_campos r' n p (heap s) ! x) = id_medico (heap s ! x)" for x
    by (cases "x = r'") (simp_all add: atribuir_id atribuir_outro)
  with assms show ?thesis
    unfolding atualizar_fst [OF Some] encontrado_salvar
    by (simp add: encontrado_def obter_medico_por_id_def procurar_def)
qed

lemma encontrado_remover:
  assumes "bem_formado s" "encontrado s r" "r \<in> set (medicos (fst (remover_medico i s)))"
  shows "encontrado (fst (remover_medico i s)) r"
proof (cases "obter_medico_por_id s i")
  case None
  with assms show ?thesis by (simp add: remover_None)
next
  case (Some r')
  from assms(1) have "distinct (medicos s)" by (simp add: bem_formado_def)
  with assms(3) have "r' \<noteq> r" by (auto simp: remover_fst [OF Some])
  with assms(2) show ?thesis
    unfolding remover_fst [OF Some] encontrado_salvar
    by (simp add: encontrado_def obter_medico_por_id_def procurar_def find_remove1_Some)
qed

lemma encontrado_registrar:
  assumes "encontrado s r"
  shows "encontrado (fst (registrar_atendimento i v s)) r"
proof (cases "obter_medico_por_id s i")
  case None
  with assms show ?thesis by (simp add: registrar_None)
next
  case (Some r')
  from assms show ?thesis
    unfolding registrar_fst [OF Some] encontrado_salvar
    by (simp add: encontrado_def obter_medico_por_id_def)
qed

lemma medicos_executar:
  "bem_formado s \<Longrightarrow> r < length (heap s) \<Longrightarrow> r \<in> set (medicos (executar c s)) \<Longrightarrow>
   r \<in> set (medicos s)"
proof (cases c)
  case (Cadastrar n p)
  then show "r < length (heap s) \<Longrightarrow> r \<in> set (medicos (executar c s)) \<Longrightarrow> ?thesis"
    by (auto simp: cadastrar_fst)
next
  case (Atualizar i n p)
  have "medicos (fst (atualizar_medico i n p s)) = medicos s"
    by (cases "obter_medico_por_id s i") (simp_all add: atualizar_None atualizar_fst)
  with Atualizar show "r \<in> set (medicos (executar c s)) \<Longrightarrow> ?thesis" by simp
next
  case (Remover i)
  have "set (medicos (fst (remover_medico i s))) \<subseteq> set (medicos s)"
    by (cases "obter_medico_por_id s i")
       (use set_remove1_subset [of _ "medicos s"] in \<open>auto simp: remover_None remover_fst\<close>)
  with Remover show "r \<in> set (medicos (executar c s)) \<Longrightarrow> ?thesis" by auto
next
  case (Registrar i v)
  have "medicos (fst (registrar_atendimento i v s)) = medicos s"
    by (cases "obter_medico_por_id s i") (simp_all add: registrar_None registrar_fst)
  with Registrar show "r \<in> set (medicos (executar c s)) \<Longrightarrow> ?thesis" by simp
qed

lemma length_heap_executar: "length (heap s) \<le> length (heap (executar c s))"
proof (cases c)
  case (Cadastrar n p)
  then show ?thesis by (simp add: cadastrar_fst)
next
  case (Atualizar i n p)
  then show ?thesis
    by (cases "obter_medico_por_id s i") (simp_all add: atualizar_None atualizar_fst)
next
  case (Remover i)
  then show ?thesis
    by (cases "obter_medico_por_id s i") (simp_all add: remover_None remover_fst)
next
  case (Registrar i v)
  then show ?thesis
    by (cases "obter_medico_por_id s i") (simp_all add: registrar_None registrar_fst)
qed

lemma encontrado_executar:
  assumes "bem_formado s" "r \<in> set (medicos s)" "encontrado s r"
    "r \<in> set (medicos (executar c s))"
  shows "encontrado (executar c s) r"
  using assms
  by (cases c)
     (simp_all add: encontrado_cadastrar encontrado_atualizar encontrado_remover
        encontrado_registrar)

lemma encontrado_executar_todas:
  "bem_formado s \<Longrightarrow> r \<in> set (medicos s) \<Longrightarrow> encontrado s r \<Longrightarrow>
   r \<in> set (medicos (executar_todas cs s)) \<Longrightarrow> encontrado (executar_todas cs s) r"
proof (induction cs arbitrary: s)
  case Nil
  then show ?case by (simp add: executar_todas_def)
next
  case (Cons c cs)
  have t: "executar_todas (c # cs) s = executar_todas cs (executar c s)"
    by (simp add: executar_todas_def)
  have bf: "bem_formado (executar c s)" using Cons.prems(1) by (rule bem_formado_executar)
  from Cons.prems(1,2) have lt: "r < length (heap s)"
    by (auto simp: bem_formado_def list_all_iff)
  have mem: "r \<in> set (medicos (executar c s))"
  proof (rule ccontr)
    assume n: "r \<notin> set (medicos (executar c s))"
    have "r \<notin> set (medicos (executar_todas cs' s'))"
      if "bem_formado s'" "r < length (heap s')" "r \<notin> set (medicos s')" for cs' s'
      using that
    proof (induction cs' arbitrary: s')
      case Nil
      then show ?case by (simp add: executar_todas_def)
    next
      case (Cons c' cs')
      have "r \<notin> set (medicos (executar c' s'))"
        using medicos_executar [of s' r c'] Cons.prems by blast
      moreover have "bem_formado (executar c' s')"
        using Cons.prems(1) by (rule bem_formado_executar)
      moreover have "r < length (heap (executar c' s'))"
        using Cons.prems(2) length_heap_executar [of s' c'] by simp
      ultimately have "r \<notin> set (medicos (executar_todas cs' (executar c' s')))"
        by (intro Cons.IH)
      then show ?case by (simp add: executar_todas_def)
    qed
    from this [OF bf _ n, of cs] lt length_heap_executar [of s c] Cons.prems(4)
    show False by (simp add: t)
  qed
  from Cons.prems(1,2,3) mem have "encontrado (executar c s) r" by (rule encontrado_executar)
  with bf mem Cons.prems(4) show ?case unfolding t by (intro Cons.IH)
qed

text \<open>
  A registration that returns leaves the new doctor found under its id: the save has
  succeeded, so no other doctor of the list has that id.
\<close>

lemma encontrado_apos_cadastrar:
  assumes "bem_formado s" "cadastrar_medico n p s = (s', Inr r)"
  shows "r \<in> set (medicos s')" and "encontrado s' r"
proof -
  let ?m = "\<lparr>id_medico = int (length (medicos s)) + 1, nome = n, percentual_repasse = p\<rparr>"
  let ?s1 = "s\<lparr>heap := heap s @ [?m], medicos := medicos s @ [length (heap s)]\<rparr>"
  from assms(2) have r: "r = length (heap s)" and sv: "snd (salvar_dados ?s1) = Inr ()"
    and s': "s' = fst (salvar_dados ?s1)"
    by (auto simp: cadastrar_medico_def Let_def split: prod.splits sum.splits)
  from sv have d: "distinct (ids_medicos ?s1)"
    by (simp add: salvar_dados_eq split: if_splits)
  show "r \<in> set (medicos s')" by (simp add: s' r)
  from assms(1) have lt: "\<And>x. x \<in> set (medicos s) \<Longrightarrow> x < length (heap s)"
    by (auto simp: bem_formado_def list_all_iff)
  from d have "id_medico ?m \<notin> set (map (\<lambda>x. id_medico ((heap s @ [?m]) ! x)) (medicos s))"
    by (simp add: ids_medicos_def)
  then have "find (\<lambda>x. id_medico ((heap s @ [?m]) ! x) = id_medico ?m) (medicos s) = None"
    unfolding find_None_iff by (metis (mono_tags, lifting) image_eqI list.set_map)
  then show "encontrado s' r"
    unfolding s' encontrado_salvar
    by (simp add: encontrado_def obter_medico_por_id_def procurar_def r find_append_None)
qed

lemma obter_medico_por_id_apos_cadastrar:
  assumes "bem_formado s" "cadastrar_medico n p s = (s', Inr r)"
    "r \<in> set (medicos (executar_todas cs s'))"
  shows "obter_medico_por_id (executar_todas cs s')
           (id_medico (heap (executar_todas cs s') ! r)) = Some r"
proof -
  from assms(2) have "s' = fst (cadastrar_medico n p s)" by simp
  with assms(1) have "bem_formado s'" by (simp add: bem_formado_cadastrar)
  moreover from assms(1,2) have "r \<in> set (medicos s')" "encontrado s' r"
    by (rule encontrado_apos_cadastrar)+
  ultimately have "encontrado (executar_todas cs s') r"
    using assms(3) by (rule encontrado_executar_todas)
  then show ?thesis by (simp add: encontrado_def)
qed


section \<open>The claims\<close>


subsection \<open>Doctor ids and the lookup by id\<close>

text \<open>
  C1 says that the ids of the doctors of the list are pairwise distinct in every store
  reached from the empty one. The code breaks this: after two registrations, the removal
  of doctor 1 and a third registration, the list holds two doctors with the id 2. The
  third registration computes its id from the length of the list, which is 1 again,
  appends the doctor, and only then fails in \<^verbatim>\<open>salvar_dados\<close> on the primary key of the
  table.
\<close>

theorem ids_medicos_repetidos:
  "ids_medicos
     (executar_todas
        [Cadastrar ''A'' 20, Cadastrar ''B'' 30, Remover 1, Cadastrar ''C'' 40]
        (novo_Financeiro banco_vazio)) = [2, 2] \<and>
   \<not> distinct
     (ids_medicos
        (executar_todas
           [Cadastrar ''A'' 20, Cadastrar ''B'' 30, Remover 1, Cadastrar ''C'' 40]
           (novo_Financeiro banco_vazio))) \<and>
   snd (cadastrar_medico ''C'' 40
          (executar_todas [Cadastrar ''A'' 20, Cadastrar ''B'' 30, Remover 1]
             (novo_Financeiro banco_vazio))) =
     Inl IntegrityError"
  by (simp add: avaliar)

text \<open>
  C2 says that \<^verbatim>\<open>obter_medico_por_id\<close>, given the id of a doctor of the list, returns that
  doctor. The code breaks this in \<open>estado_colisao\<close>, the store reached by the four calls
  above: the doctor \<^verbatim>\<open>C\<close>, appended by the last registration and still in the list,
  carries the id 2, and the lookup of 2 returns the other doctor, \<^verbatim>\<open>B\<close>. (For a doctor
  whose registration returned, the lookup does hold until the doctor is removed:
  \<open>obter_medico_por_id_apos_cadastrar\<close>.)
\<close>

theorem obter_medico_por_id_outro_medico:
  "medicos estado_colisao = [1, 2] \<and>
   heap estado_colisao ! 2 = \<lparr>id_medico = 2, nome = ''C'', percentual_repasse = 40\<rparr> \<and>
   heap estado_colisao ! 1 = \<lparr>id_medico = 2, nome = ''B'', percentual_repasse = 30\<rparr> \<and>
   obter_medico_por_id estado_colisao (id_medico (heap estado_colisao ! 2)) = Some 1"
  by (simp add: estado_colisao_eq obter_medico_por_id_def procurar_def)


subsection \<open>Payouts\<close>

text \<open>
  C3. The payout of an appointment is computed from the object its doctor reference
  points to, as that object is now: the amount times the percentage divided by 100 (over
  the reals the grouping of the product and the quotient makes no difference; the source
  divides the percentage first). An appointment stores no payout. When
  \<^verbatim>\<open>atualizar_medico\<close> resolves its id to the doctor of the appointment \<open>a\<close> and is given the
  percentage \<open>p\<close>, the appointment list is unchanged and the payout of \<open>a\<close> is from then on
  computed from \<open>p\<close>, also when \<^verbatim>\<open>salvar_dados\<close> raises afterwards; with the percentage left
  unspecified the payout stays.
\<close>

theorem calcular_repasse_percentual_atual:
  "calcular_repasse (heap s) a = valor a * percentual_repasse (heap s ! medico a) / 100 \<and>
   (bem_formado s \<and> a \<in> set (atendimentos s) \<and> obter_medico_por_id s i = Some (medico a) \<longrightarrow>
      atendimentos (fst (atualizar_medico i n (Some p) s)) = atendimentos s \<and>
      percentual_repasse (heap (fst (atualizar_medico i n (Some p) s)) ! medico a) = p \<and>
      calcular_repasse (heap (fst (atualizar_medico i n (Some p) s))) a = valor a * p / 100 \<and>
      calcular_repasse (heap (fst (atualizar_medico i n None s))) a = calcular_repasse (heap s) a)"
proof (intro conjI impI)
  show "calcular_repasse (heap s) a = valor a * percentual_repasse (heap s ! medico a) / 100"
    by (simp add: calcular_repasse_def)
next
  assume h: "bem_formado s \<and> a \<in> set (atendimentos s) \<and> obter_medico_por_id s i = Some (medico a)"
  then have r: "obter_medico_por_id s i = Some (medico a)" by simp
  from h have "medico a < length (heap s)"
    by (auto simp: bem_formado_def list_all_iff)
  then have p: "percentual_repasse (atribuir_campos (medico a) n (Some p) (heap s) ! medico a) = p"
    by (rule atribuir_perc_Some)
  show "atendimentos (fst (atualizar_medico i n (Some p) s)) = atendimentos s"
    by (simp add: atualizar_fst [OF r])
  show "percentual_repasse (heap (fst (atualizar_medico i n (Some p) s)) ! medico a) = p"
    using p by (simp add: atualizar_fst [OF r])
  show "calcular_repasse (heap (fst (atualizar_medico i n (Some p) s))) a = valor a * p / 100"
    using p by (simp add: atualizar_fst [OF r] calcular_repasse_def)
  show "calcular_repasse (heap (fst (atualizar_medico i n None s))) a = calcular_repasse (heap s) a"
    by (simp add: atualizar_fst [OF r] calcular_repasse_def atribuir_perc_None)
qed

theorem calcular_repasse_percentual_atual_witness:
  "bem_formado estado_cenario \<and>
   \<lparr>id_atendimento = 1, medico = 0, valor = 100\<rparr> \<in> set (atendimentos estado_cenario) \<and>
   obter_medico_por_id estado_cenario 1 = Some 0 \<and>
   calcular_repasse (heap estado_cenario) \<lparr>id_atendimento = 1, medico = 0, valor = 100\<rparr> = 20 \<and>
   calcular_repasse (heap (fst (atualizar_medico 1 None (Some 50) estado_cenario)))
     \<lparr>id_atendimento = 1, medico = 0, valor = 100\<rparr> = 50"
proof -
  let ?a = "\<lparr>id_atendimento = 1, medico = 0, valor = 100\<rparr>"
  have a: "bem_formado estado_cenario" by (simp add: estado_cenario_eq bem_formado_def)
  have b: "?a \<in> set (atendimentos estado_cenario)" by (simp add: estado_cenario_eq)
  have c: "obter_medico_por_id estado_cenario 1 = Some (medico ?a)"
    by (simp add: estado_cenario_eq obter_medico_por_id_def procurar_def)
  have d: "percentual_repasse (heap estado_cenario ! medico ?a) = 20"
    by (simp add: estado_cenario_eq)
  from calcular_repasse_percentual_atual [of estado_cenario ?a 1 None 50] a b c d
  show ?thesis by simp
qed


subsection \<open>Saving and reloading\<close>





subsection \<open>Registering appointments\<close>

text \<open>
  C5. \<^verbatim>\<open>registrar_atendimento\<close> with a doctor id that no doctor of the list has returns
  \<^verbatim>\<open>None\<close> and leaves the whole store, so also the appointment list, as it was. With an
  id that resolves (to the first doctor \<open>r\<close> of the list with that id) it appends one
  appointment whose id is the number of appointments so far plus one, and touches neither
  the doctors nor the object store; the call then returns that appointment, unless
  \<^verbatim>\<open>salvar_dados\<close> raises.
\<close>

theorem registrar_atendimento_spec:
  "(i \<notin> set (ids_medicos s) \<longrightarrow> registrar_atendimento i v s = (s, Inr None)) \<and>
   (i \<in> set (ids_medicos s) \<longrightarrow>
      (\<exists>r. obter_medico_por_id s i = Some r \<and>
           atendimentos (fst (registrar_atendimento i v s)) =
             atendimentos s @
               [\<lparr>id_atendimento = int (length (atendimentos s)) + 1, medico = r, valor = v\<rparr>] \<and>
           medicos (fst (registrar_atendimento i v s)) = medicos s \<and>
           heap (fst (registrar_atendimento i v s)) = heap s \<and>
           (snd (registrar_atendimento i v s) =
              Inr (Some \<lparr>id_atendimento = int (length (atendimentos s)) + 1,
                          medico = r, valor = v\<rparr>) \<or>
            snd (registrar_atendimento i v s) = Inl IntegrityError)))"
proof (intro conjI impI)
  assume "i \<notin> set (ids_medicos s)"
  then have "obter_medico_por_id s i = None" by (simp add: obter_None_iff)
  then show "registrar_atendimento i v s = (s, Inr None)" by (rule registrar_None)
next
  assume "i \<in> set (ids_medicos s)"
  then obtain r where r: "obter_medico_por_id s i = Some r"
    using obter_Some_iff by blast
  show "\<exists>r. obter_medico_por_id s i = Some r \<and>
           atendimentos (fst (registrar_atendimento i v s)) =
             atendimentos s @
               [\<lparr>id_atendimento = int (length (atendimentos s)) + 1, medico = r, valor = v\<rparr>] \<and>
           medicos (fst (registrar_atendimento i v s)) = medicos s \<and>
           heap (fst (registrar_atendimento i v s)) = heap s \<and>
           (snd (registrar_atendimento i v s) =
              Inr (Some \<lparr>id_atendimento = int (length (atendimentos s)) + 1,
                          medico = r, valor = v\<rparr>) \<or>
            snd (registrar_atendimento i v s) = Inl IntegrityError)"
    using r registrar_snd [OF r, of v] by (simp add: registrar_fst)
qed

theorem registrar_atendimento_spec_witness:
  "7 \<notin> set (ids_medicos estado_cenario) \<and>
   registrar_atendimento 7 50 estado_cenario = (estado_cenario, Inr None) \<and>
   1 \<in> set (ids_medicos estado_cenario) \<and>
   atendimentos (fst (registrar_atendimento 1 50 estado_cenario)) =
     [\<lparr>id_atendimento = 1, medico = 0, valor = 100\<rparr>,
      \<lparr>id_atendimento = 2, medico = 0, valor = 50\<rparr>]"
proof -
  have a: "7 \<notin> set (ids_medicos estado_cenario)" by (simp add: avaliar)
  have b: "1 \<in> set (ids_medicos estado_cenario)" by (simp add: avaliar)
  have c: "obter_medico_por_id estado_cenario 1 = Some 0" by (simp add: avaliar)
  have d: "atendimentos estado_cenario = [\<lparr>id_atendimento = 1, medico = 0, valor = 100\<rparr>]"
    by (simp add: avaliar)
  from registrar_atendimento_spec [of 7 estado_cenario 50] a
  have e: "registrar_atendimento 7 50 estado_cenario = (estado_cenario, Inr None)" by blast
  from registrar_atendimento_spec [of 1 estado_cenario 50] b c d
  have f: "atendimentos (fst (registrar_atendimento 1 50 estado_cenario)) =
     [\<lparr>id_atendimento = 1, medico = 0, valor = 100\<rparr>,
      \<lparr>id_atendimento = 2, medico = 0, valor = 50\<rparr>]" by auto
  from a b e f show ?thesis by blast
qed





subsection \<open>The report\<close>

text \<open>
  C7. \<^verbatim>\<open>relatorio_financeiro\<close> returns the store as it received it, and a report whose
  total billed is the sum of the amounts, whose total payout is the sum of the payouts
  computed from the doctors as they are now, whose net is the difference of the two, and
  whose counts are the lengths of the two lists; without appointments the net is 0.
\<close>

theorem relatorio_financeiro_spec:
  "fst (relatorio_financeiro s) = s \<and>
   faturamento_total (snd (relatorio_financeiro s)) = sum_list (map valor (atendimentos s)) \<and>
   total_repasse (snd (relatorio_financeiro s)) =
     sum_list (map (calcular_repasse (heap s)) (atendimentos s)) \<and>
   lucro_liquido (snd (relatorio_financeiro s)) =
     faturamento_total (snd (relatorio_financeiro s)) - total_repasse (snd (relatorio_financeiro s)) \<and>
   qtd_atendimentos (snd (relatorio_financeiro s)) = length (atendimentos s) \<and>
   qtd_medicos (snd (relatorio_financeiro s)) = length (medicos s) \<and>
   (atendimentos s = [] \<longrightarrow> lucro_liquido (snd (relatorio_financeiro s)) = 0)"
  by (simp add: relatorio_financeiro_def Let_def soma_sum_list)

theorem relatorio_financeiro_spec_witness:
  "atendimentos estado_inicial = [] \<and>
   lucro_liquido (snd (relatorio_financeiro estado_inicial)) = 0 \<and>
   fst (relatorio_financeiro estado_cenario) = estado_cenario \<and>
   faturamento_total (snd (relatorio_financeiro estado_cenario)) = 100 \<and>
   total_repasse (snd (relatorio_financeiro estado_cenario)) = 20 \<and>
   lucro_liquido (snd (relatorio_financeiro estado_cenario)) = 80 \<and>
   qtd_atendimentos (snd (relatorio_financeiro estado_cenario)) = 1 \<and>
   qtd_medicos (snd (relatorio_financeiro estado_cenario)) = 1"
proof -
  have a: "atendimentos estado_inicial = []" by (simp add: estado_inicial_eq)
  from relatorio_financeiro_spec [of estado_inicial] a
  have b: "lucro_liquido (snd (relatorio_financeiro estado_inicial)) = 0" by blast
  have c: "sum_list (map valor (atendimentos estado_cenario)) = 100"
    by (simp add: estado_cenario_eq)
  have d: "sum_list (map (calcular_repasse (heap estado_cenario)) (atendimentos estado_cenario)) = 20"
    by (simp add: estado_cenario_eq calcular_repasse_def)
  have e: "length (atendimentos estado_cenario) = 1" "length (medicos estado_cenario) = 1"
    by (simp_all add: estado_cenario_eq)
  from relatorio_financeiro_spec [of estado_cenario] c d e a b
  show ?thesis by simp
qed


subsection \<open>Updating and removing doctors\<close>

text \<open>
  C8. \<^verbatim>\<open>atualizar_medico\<close> returns \<^verbatim>\<open>False\<close> exactly when no doctor of the list has the id,
  and then the store is unchanged. When the id resolves to the object \<open>r\<close>, the call
  returns \<^verbatim>\<open>True\<close> or leaves with the \<^verbatim>\<open>IntegrityError\<close> of \<^verbatim>\<open>salvar_dados\<close>; in both
  cases the doctor list, the appointment list and every object other than \<open>r\<close> are
  unchanged, the id of \<open>r\<close> is unchanged, and so is each field of \<open>r\<close> passed as \<^verbatim>\<open>None\<close>;
  a field that is passed has the new value.
\<close>

theorem atualizar_medico_parcial:
  "(snd (atualizar_medico i n p s) = Inr False \<longleftrightarrow> i \<notin> set (ids_medicos s)) \<and>
   (i \<notin> set (ids_medicos s) \<longrightarrow> fst (atualizar_medico i n p s) = s) \<and>
   (i \<in> set (ids_medicos s) \<longrightarrow>
      snd (atualizar_medico i n p s) = Inr True \<or>
      snd (atualizar_medico i n p s) = Inl IntegrityError) \<and>
   medicos (fst (atualizar_medico i n p s)) = medicos s \<and>
   atendimentos (fst (atualizar_medico i n p s)) = atendimentos s \<and>
   length (heap (fst (atualizar_medico i n p s))) = length (heap s) \<and>
   (\<forall>r. obter_medico_por_id s i = Some r \<longrightarrow>
      (\<forall>r'. r' \<noteq> r \<longrightarrow> heap (fst (atualizar_medico i n p s)) ! r' = heap s ! r') \<and>
      id_medico (heap (fst (atualizar_medico i n p s)) ! r) = id_medico (heap s ! r) \<and>
      (n = None \<longrightarrow> nome (heap (fst (atualizar_medico i n p s)) ! r) = nome (heap s ! r)) \<and>
      (p = None \<longrightarrow> percentual_repasse (heap (fst (atualizar_medico i n p s)) ! r) =
                       percentual_repasse (heap s ! r)) \<and>
      (r < length (heap s) \<longrightarrow>
         (\<forall>n'. n = Some n' \<longrightarrow> nome (heap (fst (atualizar_medico i n p s)) ! r) = n') \<and>
         (\<forall>p'. p = Some p' \<longrightarrow>
                 percentual_repasse (heap (fst (atualizar_medico i n p s)) ! r) = p')))"
proof (cases "obter_medico_por_id s i")
  case None
  then have "i \<notin> set (ids_medicos s)" by (simp add: obter_None_iff)
  with None show ?thesis by (simp add: atualizar_None)
next
  case (Some r)
  then have i: "i \<in> set (ids_medicos s)" using obter_Some_iff by blast
  note f = atualizar_fst [OF Some]
  have r: "snd (atualizar_medico i n p s) = Inr True \<or>
           snd (atualizar_medico i n p s) = Inl IntegrityError"
    using salvar_snd [of "s\<lparr>heap := atribuir_campos r n p (heap s)\<rparr>"]
    by (auto simp: atualizar_snd [OF Some])
  then have nf: "snd (atualizar_medico i n p s) \<noteq> Inr False" by auto
  show ?thesis
    using i r nf Some
    by (simp add: f atribuir_outro atribuir_id atribuir_nome_None atribuir_perc_None
          atribuir_nome_Some atribuir_perc_Some)
qed

theorem atualizar_medico_parcial_witness:
  "9 \<notin> set (ids_medicos estado_cenario) \<and>
   atualizar_medico 9 (Some ''X'') (Some 50) estado_cenario = (estado_cenario, Inr False) \<and>
   obter_medico_por_id estado_cenario 1 = Some 0 \<and>
   snd (atualizar_medico 1 None (Some 50) estado_cenario) \<noteq> Inr False \<and>
   nome (heap (fst (atualizar_medico 1 None (Some 50) estado_cenario)) ! 0) = ''Dr. A'' \<and>
   percentual_repasse (heap (fst (atualizar_medico 1 (Some ''Dra. B'') None estado_cenario)) ! 0) = 20"
proof -
  have a: "9 \<notin> set (ids_medicos estado_cenario)" "1 \<in> set (ids_medicos estado_cenario)"
    by (simp_all add: estado_cenario_eq ids_medicos_def)
  have b: "obter_medico_por_id estado_cenario 1 = Some 0"
    by (simp add: estado_cenario_eq obter_medico_por_id_def procurar_def)
  have c: "heap estado_cenario ! 0 = \<lparr>id_medico = 1, nome = ''Dr. A'', percentual_repasse = 20\<rparr>"
    by (simp add: estado_cenario_eq)
  from atualizar_medico_parcial [of 9 "Some ''X''" "Some 50" estado_cenario] a
  have d: "atualizar_medico 9 (Some ''X'') (Some 50) estado_cenario = (estado_cenario, Inr False)"
    by (simp add: prod_eq_iff)
  from atualizar_medico_parcial [of 1 None "Some 50" estado_cenario] a b c
  have e: "snd (atualizar_medico 1 None (Some 50) estado_cenario) \<noteq> Inr False"
          "nome (heap (fst (atualizar_medico 1 None (Some 50) estado_cenario)) ! 0) = ''Dr. A''"
    by simp_all
  from atualizar_medico_parcial [of 1 "Some ''Dra. B''" None estado_cenario] a b c
  have f: "percentual_repasse (heap (fst (atualizar_medico 1 (Some ''Dra. B'') None estado_cenario)) ! 0) = 20"
    by simp
  from a b d e f show ?thesis by blast
qed

text \<open>
  C9. \<^verbatim>\<open>remover_medico\<close> returns \<^verbatim>\<open>False\<close> exactly when no doctor of the list has the id,
  and then the store is unchanged. When the id resolves to the object \<open>r\<close>, that object is
  taken out of the doctor list and nothing else changes in memory: the appointment list
  (so \<^verbatim>\<open>listar_atendimentos\<close>) and the objects are as before, also for appointments that
  reference \<open>r\<close>, and the report keeps its totals and its appointment count while its
  doctor count drops by one. The call then returns \<^verbatim>\<open>True\<close>, unless \<^verbatim>\<open>salvar_dados\<close> raises.
\<close>

theorem remover_medico_spec:
  "(snd (remover_medico i s) = Inr False \<longleftrightarrow> i \<notin> set (ids_medicos s)) \<and>
   (i \<notin> set (ids_medicos s) \<longrightarrow> fst (remover_medico i s) = s) \<and>
   (i \<in> set (ids_medicos s) \<longrightarrow>
      (\<exists>r. obter_medico_por_id s i = Some r \<and> r \<in> set (medicos s) \<and>
           medicos (fst (remover_medico i s)) = remove1 r (medicos s) \<and>
           length (medicos (fst (remover_medico i s))) + 1 = length (medicos s) \<and>
           qtd_medicos (snd (relatorio_financeiro (fst (remover_medico i s)))) + 1 =
             qtd_medicos (snd (relatorio_financeiro s)) \<and>
           (distinct (medicos s) \<longrightarrow>
              set (medicos (fst (remover_medico i s))) = set (medicos s) - {r}) \<and>
           (snd (remover_medico i s) = Inr True \<or>
            snd (remover_medico i s) = Inl IntegrityError))) \<and>
   heap (fst (remover_medico i s)) = heap s \<and>
   atendimentos (fst (remover_medico i s)) = atendimentos s \<and>
   listar_atendimentos (fst (remover_medico i s)) = listar_atendimentos s \<and>
   faturamento_total (snd (relatorio_financeiro (fst (remover_medico i s)))) =
     faturamento_total (snd (relatorio_financeiro s)) \<and>
   total_repasse (snd (relatorio_financeiro (fst (remover_medico i s)))) =
     total_repasse (snd (relatorio_financeiro s)) \<and>
   lucro_liquido (snd (relatorio_financeiro (fst (remover_medico i s)))) =
     lucro_liquido (snd (relatorio_financeiro s)) \<and>
   qtd_atendimentos (snd (relatorio_financeiro (fst (remover_medico i s)))) =
     qtd_atendimentos (snd (relatorio_financeiro s))"
proof (cases "obter_medico_por_id s i")
  case None
  then have "i \<notin> set (ids_medicos s)" by (simp add: obter_None_iff)
  with None show ?thesis by (simp add: remover_None)
next
  case (Some r)
  then have i: "i \<in> set (ids_medicos s)" using obter_Some_iff by blast
  have m: "r \<in> set (medicos s)" using obter_SomeD [OF Some] by simp
  note f = remover_fst [OF Some]
  note res = remover_snd [OF Some]
  then have nf: "snd (remover_medico i s) \<noteq> Inr False" by auto
  have l: "length (remove1 r (medicos s)) + 1 = length (medicos s)"
    using m by (simp add: length_remove1) (cases "medicos s", auto)
  show ?thesis
    using i res nf Some m l
    by (simp add: f relatorio_snd listar_atendimentos_def)
qed

theorem remover_medico_spec_witness:
  "9 \<notin> set (ids_medicos estado_cenario) \<and>
   remover_medico 9 estado_cenario = (estado_cenario, Inr False) \<and>
   1 \<in> set (ids_medicos estado_cenario) \<and>
   medicos (fst (remover_medico 1 estado_cenario)) = [] \<and>
   atendimentos (fst (remover_medico 1 estado_cenario)) =
     [\<lparr>id_atendimento = 1, medico = 0, valor = 100\<rparr>] \<and>
   total_repasse (snd (relatorio_financeiro (fst (remover_medico 1 estado_cenario)))) = 20"
proof -
  have a: "9 \<notin> set (ids_medicos estado_cenario)" "1 \<in> set (ids_medicos estado_cenario)"
    by (simp_all add: estado_cenario_eq ids_medicos_def)
  have b: "obter_medico_por_id estado_cenario 1 = Some 0"
    by (simp add: estado_cenario_eq obter_medico_por_id_def procurar_def)
  have c: "medicos estado_cenario = [0]"
          "atendimentos estado_cenario = [\<lparr>id_atendimento = 1, medico = 0, valor = 100\<rparr>]"
    by (simp_all add: estado_cenario_eq)
  have d: "total_repasse (snd (relatorio_financeiro estado_cenario)) = 20"
    by (simp add: relatorio_snd estado_cenario_eq calcular_repasse_def)
  from remover_medico_spec [of 9 estado_cenario] a
  have e: "remover_medico 9 estado_cenario = (estado_cenario, Inr False)"
    by (simp add: prod_eq_iff)
  from remover_medico_spec [of 1 estado_cenario] a b c d
  have f: "medicos (fst (remover_medico 1 estado_cenario)) = []"
    "atendimentos (fst (remover_medico 1 estado_cenario)) =
       [\<lparr>id_atendimento = 1, medico = 0, valor = 100\<rparr>]"
    "total_repasse (snd (relatorio_financeiro (fst (remover_medico 1 estado_cenario)))) = 20"
    by simp_all
  from a e f show ?thesis by blast
qed

text \<open>
  C10 says that \<^verbatim>\<open>atualizar_medico\<close> with both fields unspecified returns \<^verbatim>\<open>True\<close> for
  every id of a doctor of the list. The code breaks this in \<open>estado_colisao\<close>: the id 2
  belongs to a doctor of the list, and the call leaves with the \<^verbatim>\<open>IntegrityError\<close> of
  \<^verbatim>\<open>salvar_dados\<close> instead of returning \<^verbatim>\<open>True\<close>; the store is as before. (In a store
  with pairwise distinct ids the call returns \<^verbatim>\<open>True\<close>:
  \<open>atualizar_medico_sem_campos_ids_distintos\<close>.)
\<close>

theorem atualizar_medico_sem_campos_excecao:
  "2 \<in> set (ids_medicos estado_colisao) \<and>
   atualizar_medico 2 None None estado_colisao = (estado_colisao, Inl IntegrityError)"
  by (simp add: estado_colisao_eq ids_medicos_def atualizar_medico_def obter_medico_por_id_def
        procurar_def salvar_dados_def para_linha_medico_def para_linha_atendimento_def)

end
